theory Spec2Isabelle
  imports Main "HOL-Library.Sublist"
begin

section \<open>The CampusNet client \<^verbatim>\<open>cnapi.py\<close>\<close>

text \<open>
  The module is a thin client: it sends two kinds of HTTP request and turns the XML text of
  the answer into objects. Two things lie outside the module and are parameters of the
  model: the HTTP transport (\<^verbatim>\<open>requests.get\<close>, \<^verbatim>\<open>requests.post\<close>) and the XML parser
  (\<^verbatim>\<open>xml.etree.ElementTree.fromstring\<close>, with \<^verbatim>\<open>str.encode\<close> in front of it in the
  extractors). What the parser returns, an element tree, and the two tree queries the
  module uses on it (\<^verbatim>\<open>find\<close>, \<^verbatim>\<open>findall\<close>) are modelled below as the standard library
  defines them.
\<close>

subsection \<open>Errors\<close>

text \<open>
  Every exception the module can let through is a value: \<open>ParseError\<close> is raised by
  \<^verbatim>\<open>fromstring\<close> on text that is not well-formed XML, \<open>KeyError k\<close> by a dictionary
  lookup \<^verbatim>\<open>d[k]\<close> of a missing key, \<open>AttributeError\<close> by \<^verbatim>\<open>None.attrib\<close>, and
  \<open>TransportError\<close> stands for whatever \<^verbatim>\<open>requests\<close> raises when no answer arrives.
\<close>

datatype error = ParseError | KeyError string | AttributeError | TransportError

subsection \<open>Element trees\<close>

text \<open>
  An \<^verbatim>\<open>xml.etree.ElementTree.Element\<close>: its tag, its attribute dictionary and its child
  elements in document order. (Text and tail are never read by the module.)
\<close>

datatype Element =
  Element (tag: string) (attrib: "string \<rightharpoonup> string") (children: "Element list")

text \<open>Python's \<^verbatim>\<open>d[k]\<close> on a dictionary: the value, or \<^verbatim>\<open>KeyError(k)\<close>.\<close>

definition getitem :: "(string \<rightharpoonup> string) \<Rightarrow> string \<Rightarrow> error + string" where
  "getitem d k = (case d k of None \<Rightarrow> Inl (KeyError k) | Some v \<Rightarrow> Inr v)"

text \<open>
  Python's slice \<^verbatim>\<open>s[-n:]\<close> for \<open>n > 0\<close>: the last \<open>n\<close> items, or all of \<open>s\<close> when it
  is shorter than \<open>n\<close> (the subtraction on \<open>nat\<close> stops at \<open>0\<close>, as the slice does).
\<close>

definition slice_last :: "nat \<Rightarrow> 'a list \<Rightarrow> 'a list" where
  "slice_last n s = drop (length s - n) s"

text \<open>
  The tree queries of \<^verbatim>\<open>ElementPath\<close>, for a path whose steps are plain tag names
  separated by \<^verbatim>\<open>/\<close>; the path is given as the list of its steps. One step
  (\<^verbatim>\<open>prepare_child\<close>) replaces the current result by the children carrying the step's tag:
  \<^verbatim>\<open>for elem in result: for e in elem: if e.tag == tag: yield e\<close>.
  \<^verbatim>\<open>findall\<close> starts from \<^verbatim>\<open>[elem]\<close> and applies the steps in turn; \<^verbatim>\<open>find\<close> is the
  first element of that result, or \<^verbatim>\<open>None\<close>.
\<close>

definition prepare_child :: "string \<Rightarrow> Element list \<Rightarrow> Element list" where
  "prepare_child t result =
     concat (map (\<lambda>elem. filter (\<lambda>e. tag e = t) (children elem)) result)"

definition findall :: "Element \<Rightarrow> string list \<Rightarrow> Element list" where
  "findall elem path = foldl (\<lambda>result t. prepare_child t result) [elem] path"

definition find_elem :: "Element \<Rightarrow> string list \<Rightarrow> Element option" where
  "find_elem elem path = (case findall elem path of [] \<Rightarrow> None | e # _ \<Rightarrow> Some e)"

subsection \<open>The value classes\<close>

record Student =
  first_name :: string
  last_name :: string
  email :: string

record Course =
  title :: string
  course_number :: string

record ExamResult =
  course :: Course
  ects_points :: string
  grade :: string
  period :: string
  year :: string

subsection \<open>The extractors\<close>

text \<open>
  \<^verbatim>\<open>AbstractXmlInfoExtractor\<close> holds the response text (a subclass may add fields, so
  the methods take any extension of the record); a subclass supplies
  \<^verbatim>\<open>_extract_information\<close>, here the parameter \<open>extract_information\<close>. The result of
  \<^verbatim>\<open>extract\<close> is \<open>Inl e\<close> when exception \<open>e\<close> escapes, \<open>Inr None\<close> when the method
  returns \<^verbatim>\<open>None\<close>, and \<open>Inr (Some v)\<close> when it returns what the subclass built.
  \<open>encode\<close> is \<^verbatim>\<open>str.encode('utf-8')\<close>, total on the text of a decoded response, and
  \<open>fromstring\<close> the parser, \<open>None\<close> when it raises \<^verbatim>\<open>ParseError\<close>. (The abstract
  class's own \<^verbatim>\<open>_extract_information\<close> only raises; it is never reached through the two
  subclasses.)
\<close>

record AbstractXmlInfoExtractor =
  response_text :: string

definition is_response_ok :: "Element \<Rightarrow> bool" where
  "is_response_ok xml_response = (slice_last 5 (tag xml_response) \<noteq> ''Fault'')"

definition AbstractXmlInfoExtractor_extract ::
  "(string \<Rightarrow> string) \<Rightarrow> (string \<Rightarrow> Element option) \<Rightarrow> (Element \<Rightarrow> error + 'a) \<Rightarrow>
   'z AbstractXmlInfoExtractor_scheme \<Rightarrow> error + 'a option" where
  "AbstractXmlInfoExtractor_extract encode fromstring extract_information self =
     (case fromstring (encode (response_text self)) of
        None \<Rightarrow> Inl ParseError
      | Some xml_response \<Rightarrow>
          if is_response_ok xml_response
          then (case extract_information xml_response of
                  Inl e \<Rightarrow> Inl e
                | Inr v \<Rightarrow> Inr (Some v))
          else Inr None)"

text \<open>
  \<^verbatim>\<open>UserInfoExtractor._extract_information\<close>: the three lookups are the arguments of
  the constructor call, evaluated from left to right.
\<close>

definition UserInfoExtractor_extract_information :: "Element \<Rightarrow> error + Student" where
  "UserInfoExtractor_extract_information xml_response =
     (let student_info_xml = attrib xml_response in
      (case getitem student_info_xml ''GivenName'' of
         Inl e \<Rightarrow> Inl e
       | Inr given \<Rightarrow>
          (case getitem student_info_xml ''FamilyName'' of
             Inl e \<Rightarrow> Inl e
           | Inr family \<Rightarrow>
              (case getitem student_info_xml ''Email'' of
                 Inl e \<Rightarrow> Inl e
               | Inr mail \<Rightarrow>
                  Inr \<lparr>first_name = given, last_name = family, email = mail\<rparr>))))"

text \<open>
  \<^verbatim>\<open>UserGradesExtractor\<close>: \<^verbatim>\<open>_map_to_exam_results\<close> builds the course first
  (\<^verbatim>\<open>Name\<close>, then \<^verbatim>\<open>CourseCode\<close>) and then looks up the four remaining attributes in
  the order of the constructor's arguments.
\<close>

definition map_to_course :: "(string \<rightharpoonup> string) \<Rightarrow> error + Course" where
  "map_to_course course_xml =
     (case getitem course_xml ''Name'' of
        Inl e \<Rightarrow> Inl e
      | Inr name \<Rightarrow>
         (case getitem course_xml ''CourseCode'' of
            Inl e \<Rightarrow> Inl e
          | Inr code \<Rightarrow> Inr \<lparr>title = name, course_number = code\<rparr>))"

definition map_to_exam_results :: "(string \<rightharpoonup> string) \<Rightarrow> error + ExamResult" where
  "map_to_exam_results course_xml =
     (case map_to_course course_xml of
        Inl e \<Rightarrow> Inl e
      | Inr c \<Rightarrow>
         (case getitem course_xml ''EctsPoints'' of
            Inl e \<Rightarrow> Inl e
          | Inr ects \<Rightarrow>
             (case getitem course_xml ''Grade'' of
                Inl e \<Rightarrow> Inl e
              | Inr g \<Rightarrow>
                 (case getitem course_xml ''Period'' of
                    Inl e \<Rightarrow> Inl e
                  | Inr p \<Rightarrow>
                     (case getitem course_xml ''Year'' of
                        Inl e \<Rightarrow> Inl e
                      | Inr y \<Rightarrow>
                         Inr \<lparr>course = c, ects_points = ects, grade = g,
                              period = p, year = y\<rparr>)))))"

text \<open>
  The list comprehension \<^verbatim>\<open>[f(x) for x in xs]\<close> with an \<open>f\<close> that may raise: the items
  are mapped in order and the first exception ends the comprehension.
\<close>

fun comprehension :: "('a \<Rightarrow> error + 'b) \<Rightarrow> 'a list \<Rightarrow> error + 'b list" where
  "comprehension f [] = Inr []"
| "comprehension f (x # xs) =
     (case f x of
        Inl e \<Rightarrow> Inl e
      | Inr y \<Rightarrow>
         (case comprehension f xs of
            Inl e \<Rightarrow> Inl e
          | Inr ys \<Rightarrow> Inr (y # ys)))"

definition exam_result_path :: "string list" where
  "exam_result_path = [''EducationProgramme'', ''ExamResults'', ''ExamResult'']"

definition UserGradesExtractor_extract_information :: "Element \<Rightarrow> error + ExamResult list" where
  "UserGradesExtractor_extract_information xml_response =
     (let courses_xml = findall xml_response exam_result_path in
      comprehension (\<lambda>course_xml. map_to_exam_results (attrib course_xml)) courses_xml)"

definition UserInfoExtractor_extract ::
  "(string \<Rightarrow> string) \<Rightarrow> (string \<Rightarrow> Element option) \<Rightarrow>
   'z AbstractXmlInfoExtractor_scheme \<Rightarrow> error + Student option" where
  "UserInfoExtractor_extract encode fromstring self =
     AbstractXmlInfoExtractor_extract encode fromstring UserInfoExtractor_extract_information self"

definition UserGradesExtractor_extract ::
  "(string \<Rightarrow> string) \<Rightarrow> (string \<Rightarrow> Element option) \<Rightarrow>
   'z AbstractXmlInfoExtractor_scheme \<Rightarrow> error + ExamResult list option" where
  "UserGradesExtractor_extract encode fromstring self =
     AbstractXmlInfoExtractor_extract encode fromstring UserGradesExtractor_extract_information self"

subsection \<open>The authenticator\<close>

text \<open>
  \<^verbatim>\<open>requests.post(url, headers=..., data=...)\<close> is the parameter \<open>requests_post\<close>: the
  text of the response, or the exception raised instead. \<^verbatim>\<open>find('LimitedAccess')\<close> is
  evaluated twice, once by \<^verbatim>\<open>_is_authenticated\<close> and once to read the attribute; were the
  second to return \<^verbatim>\<open>None\<close>, reading \<^verbatim>\<open>.attrib\<close> would raise \<^verbatim>\<open>AttributeError\<close>.
\<close>

record Authenticator =
  app_name :: string
  api_token :: string

type_synonym http_post =
  "string \<Rightarrow> (string \<rightharpoonup> string) \<Rightarrow> (string \<rightharpoonup> string) \<Rightarrow> error + string"

definition Authenticator_headers :: "Authenticator \<Rightarrow> (string \<rightharpoonup> string)" where
  "Authenticator_headers self =
     [''X-appname'' \<mapsto> Authenticator.app_name self,
      ''X-token'' \<mapsto> Authenticator.api_token self]"

definition authentication_payload :: "string \<Rightarrow> string \<Rightarrow> (string \<rightharpoonup> string)" where
  "authentication_payload username password =
     [''username'' \<mapsto> username, ''password'' \<mapsto> password]"

definition is_authenticated_xml :: "Element \<Rightarrow> bool" where
  "is_authenticated_xml response_text_xml =
     (find_elem response_text_xml [''LimitedAccess''] \<noteq> None)"

definition extract_password_from_response_body ::
  "(string \<Rightarrow> Element option) \<Rightarrow> string \<Rightarrow> error + string option" where
  "extract_password_from_response_body fromstring response_text' =
     (case fromstring response_text' of
        None \<Rightarrow> Inl ParseError
      | Some response_text_xml \<Rightarrow>
          if is_authenticated_xml response_text_xml
          then (case find_elem response_text_xml [''LimitedAccess''] of
                  None \<Rightarrow> Inl AttributeError
                | Some limited_access \<Rightarrow>
                   (case getitem (attrib limited_access) ''Password'' of
                      Inl e \<Rightarrow> Inl e
                    | Inr password \<Rightarrow> Inr (Some password)))
          else Inr None)"

definition auth_token_url :: string where
  "auth_token_url = ''https://auth.dtu.dk/dtu/mobilapp.jsp''"

definition Authenticator_auth_token ::
  "http_post \<Rightarrow> (string \<Rightarrow> Element option) \<Rightarrow> Authenticator \<Rightarrow> string \<Rightarrow> string \<Rightarrow>
   error + string option" where
  "Authenticator_auth_token requests_post fromstring self username password =
     (case requests_post auth_token_url (Authenticator_headers self)
             (authentication_payload username password) of
        Inl e \<Rightarrow> Inl e
      | Inr text \<Rightarrow> extract_password_from_response_body fromstring text)"

subsection \<open>The network client and the interface class\<close>

text \<open>
  \<^verbatim>\<open>requests.get(url, headers=..., auth=(user, token))\<close> is the parameter
  \<open>requests_get\<close>. The token of the pair is \<^verbatim>\<open>None\<close> as long as the session has none.
\<close>

record UserClient =
  app_name :: string
  api_token :: string
  student_number :: string
  access_token :: "string option"

type_synonym http_get =
  "string \<Rightarrow> (string \<rightharpoonup> string) \<Rightarrow> string \<times> string option \<Rightarrow> error + string"

definition UserClient_headers :: "UserClient \<Rightarrow> (string \<rightharpoonup> string)" where
  "UserClient_headers self =
     [''X-appname'' \<mapsto> UserClient.app_name self,
      ''X-token'' \<mapsto> UserClient.api_token self,
      ''accept-language'' \<mapsto> ''da-DK'',
      ''X-Include-services-and-relations'' \<mapsto> ''true'']"

definition UserClient_get :: "http_get \<Rightarrow> UserClient \<Rightarrow> string \<Rightarrow> error + string" where
  "UserClient_get requests_get self path =
     requests_get (''https://www.campusnet.dtu.dk/data/CurrentUser/'' @ path)
       (UserClient_headers self)
       (UserClient.student_number self, UserClient.access_token self)"

text \<open>
  \<^verbatim>\<open>CampusNetApi\<close>. The constructor's last parameter has the default \<^verbatim>\<open>None\<close>; the
  model takes it as an option, \<open>None\<close> when the caller leaves it out.
\<close>

record CampusNetApi =
  app_name :: string
  api_token :: string
  student_number :: string
  auth_token :: "string option"

definition CampusNetApi_init ::
  "string \<Rightarrow> string \<Rightarrow> string \<Rightarrow> string option \<Rightarrow> CampusNetApi" where
  "CampusNetApi_init app_name' api_token' student_number' auth_token' =
     \<lparr>app_name = app_name', api_token = api_token',
      student_number = student_number', auth_token = auth_token'\<rparr>"

definition is_authenticated :: "CampusNetApi \<Rightarrow> bool" where
  "is_authenticated self = (auth_token self \<noteq> None)"

definition get_auth_token ::
  "http_post \<Rightarrow> (string \<Rightarrow> Element option) \<Rightarrow> CampusNetApi \<Rightarrow> string \<Rightarrow>
   error + string option" where
  "get_auth_token requests_post fromstring self password =
     Authenticator_auth_token requests_post fromstring
       \<lparr>Authenticator.app_name = CampusNetApi.app_name self,
        Authenticator.api_token = CampusNetApi.api_token self\<rparr>
       (CampusNetApi.student_number self) password"

definition client :: "CampusNetApi \<Rightarrow> UserClient" where
  "client self =
     \<lparr>UserClient.app_name = CampusNetApi.app_name self,
      UserClient.api_token = CampusNetApi.api_token self,
      UserClient.student_number = CampusNetApi.student_number self,
      access_token = auth_token self\<rparr>"

text \<open>
  \<^verbatim>\<open>authenticate\<close> is the one method that assigns a field. It returns the object after
  the call together with the exception that escaped, if any: the assignment happens only
  when \<^verbatim>\<open>_get_auth_token\<close> has returned.
\<close>

definition authenticate ::
  "http_post \<Rightarrow> (string \<Rightarrow> Element option) \<Rightarrow> string \<Rightarrow> CampusNetApi \<Rightarrow>
   error option \<times> CampusNetApi" where
  "authenticate requests_post fromstring password self =
     (case get_auth_token requests_post fromstring self password of
        Inl e \<Rightarrow> (Some e, self)
      | Inr token \<Rightarrow> (None, self\<lparr>auth_token := token\<rparr>))"

definition grades ::
  "http_get \<Rightarrow> (string \<Rightarrow> string) \<Rightarrow> (string \<Rightarrow> Element option) \<Rightarrow> CampusNetApi \<Rightarrow>
   error + ExamResult list option" where
  "grades requests_get encode fromstring self =
     (case UserClient_get requests_get (client self) ''Grades'' of
        Inl e \<Rightarrow> Inl e
      | Inr text \<Rightarrow>
          UserGradesExtractor_extract encode fromstring \<lparr>response_text = text\<rparr>)"

definition user_info ::
  "http_get \<Rightarrow> (string \<Rightarrow> string) \<Rightarrow> (string \<Rightarrow> Element option) \<Rightarrow> CampusNetApi \<Rightarrow>
   error + Student option" where
  "user_info requests_get encode fromstring self =
     (case UserClient_get requests_get (client self) ''UserInfo'' of
        Inl e \<Rightarrow> Inl e
      | Inr text \<Rightarrow>
          UserInfoExtractor_extract encode fromstring \<lparr>response_text = text\<rparr>)"

text \<open>
  The state of a \<^verbatim>\<open>CampusNetApi\<close> object over a sequence of calls. Each call meets the
  network as it is at that moment (the \<open>world\<close>: what the authentication endpoint
  answers, and the parser). \<^verbatim>\<open>is_authenticated\<close>, \<^verbatim>\<open>grades\<close> and \<^verbatim>\<open>user_info\<close>
  assign no field, so the object after them is the object before.
\<close>

record world =
  world_post :: http_post
  world_fromstring :: "string \<Rightarrow> Element option"

datatype operation = Authenticate string | IsAuthenticated | Grades | UserInfo

fun step :: "world \<Rightarrow> operation \<Rightarrow> CampusNetApi \<Rightarrow> CampusNetApi" where
  "step w (Authenticate password) self =
     snd (authenticate (world_post w) (world_fromstring w) password self)"
| "step w IsAuthenticated self = self"
| "step w Grades self = self"
| "step w UserInfo self = self"

fun run :: "(world \<times> operation) list \<Rightarrow> CampusNetApi \<Rightarrow> CampusNetApi" where
  "run [] self = self"
| "run ((w, op) # rest) self = run rest (step w op self)"

subsection \<open>Notions the properties are stated with\<close>

text \<open>
  All elements of a tree in document order: an element comes before its children, and
  the children follow one another as they are written (\<^verbatim>\<open>Element.iter\<close>).
\<close>

fun iter_elem :: "Element \<Rightarrow> Element list" where
  "iter_elem (Element t a cs) = Element t a cs # concat (map iter_elem cs)"

text \<open>
  The elements reachable from \<open>e\<close> by a structural path, as the specification words it:
  the empty path reaches \<open>e\<close> itself, and a path \<open>t/ts\<close> reaches whatever \<open>ts\<close>
  reaches from a child of \<open>e\<close> tagged \<open>t\<close>, child after child. This is the
  depth-first reading; \<open>findall\<close> above works level by level.
\<close>

fun at_path :: "string list \<Rightarrow> Element \<Rightarrow> Element list" where
  "at_path [] e = [e]"
| "at_path (t # ts) e = concat (map (at_path ts) (filter (\<lambda>c. tag c = t) (children e)))"

text \<open>The attributes the two mappers look up.\<close>

definition exam_result_keys :: "string list" where
  "exam_result_keys = [''Name'', ''CourseCode'', ''EctsPoints'', ''Grade'', ''Period'', ''Year'']"

definition profile_keys :: "string list" where
  "profile_keys = [''GivenName'', ''FamilyName'', ''Email'']"

subsection \<open>Sample responses\<close>

text \<open>
  Concrete inputs for the instances below: a transport that gives a fixed answer to every
  request, response texts with the element trees they denote, and a parser that knows
  exactly these texts and rejects every other one.
\<close>

definition canned_post :: "error + string \<Rightarrow> http_post" where
  "canned_post answer url headers data = answer"

definition profile_text :: string where
  "profile_text = ''<User GivenName='A' FamilyName='B' Email='c@d.com'><LoginFault/></User>''"

definition profile_doc :: Element where
  "profile_doc =
     Element ''User''
       [''GivenName'' \<mapsto> ''A'', ''FamilyName'' \<mapsto> ''B'', ''Email'' \<mapsto> ''c@d.com'']
       [Element ''LoginFault'' Map.empty []]"

definition fault_text :: string where
  "fault_text = ''<LoginFault><User GivenName='A'/></LoginFault>''"

definition fault_doc :: Element where
  "fault_doc =
     Element ''LoginFault'' Map.empty [Element ''User'' [''GivenName'' \<mapsto> ''A''] []]"

definition partial_profile_text :: string where
  "partial_profile_text = ''<User GivenName='A' Email='c@d.com'/>''"

definition partial_profile_doc :: Element where
  "partial_profile_doc =
     Element ''User'' [''GivenName'' \<mapsto> ''A'', ''Email'' \<mapsto> ''c@d.com''] []"

definition algebra_result :: Element where
  "algebra_result =
     Element ''ExamResult''
       [''Name'' \<mapsto> ''Algebra'', ''CourseCode'' \<mapsto> ''01005'', ''EctsPoints'' \<mapsto> ''10'',
        ''Grade'' \<mapsto> ''12'', ''Period'' \<mapsto> ''Winter'', ''Year'' \<mapsto> ''2013''] []"

definition physics_result :: Element where
  "physics_result =
     Element ''ExamResult''
       [''Name'' \<mapsto> ''Physics'', ''CourseCode'' \<mapsto> ''10020'', ''EctsPoints'' \<mapsto> ''5'',
        ''Grade'' \<mapsto> ''7'', ''Period'' \<mapsto> ''Summer'', ''Year'' \<mapsto> ''2014''] []"

definition ungraded_result :: Element where
  "ungraded_result =
     Element ''ExamResult''
       [''Name'' \<mapsto> ''Logic'', ''CourseCode'' \<mapsto> ''02156'', ''EctsPoints'' \<mapsto> ''5'',
        ''Period'' \<mapsto> ''Summer'', ''Year'' \<mapsto> ''2014''] []"

definition grades_text :: string where
  "grades_text = ''<Grades><EducationProgramme><ExamResults><ExamResult Name='Algebra' CourseCode='01005' EctsPoints='10' Grade='12' Period='Winter' Year='2013'/><ExamResult Name='Physics' CourseCode='10020' EctsPoints='5' Grade='7' Period='Summer' Year='2014'/></ExamResults></EducationProgramme></Grades>''"

definition grades_doc :: Element where
  "grades_doc =
     Element ''Grades'' Map.empty
       [Element ''EducationProgramme'' Map.empty
          [Element ''ExamResults'' Map.empty [algebra_result, physics_result]]]"

definition no_grades_text :: string where
  "no_grades_text = ''<Grades><EducationProgramme><ExamResults/></EducationProgramme></Grades>''"

definition no_grades_doc :: Element where
  "no_grades_doc =
     Element ''Grades'' Map.empty
       [Element ''EducationProgramme'' Map.empty [Element ''ExamResults'' Map.empty []]]"

definition partial_grades_text :: string where
  "partial_grades_text = ''<Grades><EducationProgramme><ExamResults><ExamResult Name='Algebra' CourseCode='01005' EctsPoints='10' Grade='12' Period='Winter' Year='2013'/><ExamResult Name='Logic' CourseCode='02156' EctsPoints='5' Period='Summer' Year='2014'/></ExamResults></EducationProgramme></Grades>''"

definition partial_grades_doc :: Element where
  "partial_grades_doc =
     Element ''Grades'' Map.empty
       [Element ''EducationProgramme'' Map.empty
          [Element ''ExamResults'' Map.empty [algebra_result, ungraded_result]]]"

definition granted_text :: string where
  "granted_text = ''<Response><LimitedAccess Password='tok123'/></Response>''"

definition granted_doc :: Element where
  "granted_doc =
     Element ''Response'' Map.empty
       [Element ''LimitedAccess'' [''Password'' \<mapsto> ''tok123''] []]"

definition denied_text :: string where
  "denied_text = ''<Response><BlockedAccess Reason='password'/></Response>''"

definition denied_doc :: Element where
  "denied_doc =
     Element ''Response'' Map.empty
       [Element ''BlockedAccess'' [''Reason'' \<mapsto> ''password''] []]"

definition nested_text :: string where
  "nested_text = ''<Response><Session><LimitedAccess Password='tok123'/></Session></Response>''"

definition nested_doc :: Element where
  "nested_doc =
     Element ''Response'' Map.empty
       [Element ''Session'' Map.empty
          [Element ''LimitedAccess'' [''Password'' \<mapsto> ''tok123''] []]]"

definition malformed_text :: string where
  "malformed_text = ''<User><Email></User>''"

definition sample_parser :: "string \<Rightarrow> Element option" where
  "sample_parser =
     map_of [(profile_text, profile_doc), (fault_text, fault_doc),
             (partial_profile_text, partial_profile_doc),
             (grades_text, grades_doc), (no_grades_text, no_grades_doc),
             (partial_grades_text, partial_grades_doc),
             (granted_text, granted_doc), (denied_text, denied_doc),
             (nested_text, nested_doc)]"

definition sample_authenticator :: Authenticator where
  "sample_authenticator =
     \<lparr>Authenticator.app_name = ''MyCampusNetApp'', Authenticator.api_token = ''sh2870272''\<rparr>"

definition sample_api :: CampusNetApi where
  "sample_api = CampusNetApi_init ''MyCampusNetApp'' ''sh2870272'' ''s123456'' None"

definition granting :: world where
  "granting = \<lparr>world_post = canned_post (Inr granted_text), world_fromstring = sample_parser\<rparr>"

definition denying :: world where
  "denying = \<lparr>world_post = canned_post (Inr denied_text), world_fromstring = sample_parser\<rparr>"

section \<open>Properties\<close>

subsection \<open>The fault check\<close>

lemma slice_last_eq_iff_suffix:
  "slice_last (length p) s = p \<longleftrightarrow> suffix p s"
proof
  assume "slice_last (length p) s = p"
  then have "drop (length s - length p) s = p"
    by (simp add: slice_last_def)
  moreover have "s = take (length s - length p) s @ drop (length s - length p) s"
    by simp
  ultimately have "s = take (length s - length p) s @ p"
    by simp
  then show "suffix p s"
    by (rule suffixI)
next
  assume "suffix p s"
  then obtain zs where "s = zs @ p"
    by (auto simp: suffix_def)
  then show "slice_last (length p) s = p"
    by (simp add: slice_last_def)
qed

lemma is_response_ok_iff: "is_response_ok x \<longleftrightarrow> \<not> suffix ''Fault'' (tag x)"
proof -
  have "length ''Fault'' = 5"
    by simp
  then have "slice_last 5 (tag x) = ''Fault'' \<longleftrightarrow> suffix ''Fault'' (tag x)"
    using slice_last_eq_iff_suffix [of "''Fault''" "tag x"] by metis
  then show ?thesis
    by (simp add: is_response_ok_def)
qed

lemma extract_parsed:
  "fromstring (encode (response_text self)) = Some root \<Longrightarrow>
   AbstractXmlInfoExtractor_extract encode fromstring f self =
     (if suffix ''Fault'' (tag root) then Inr None
      else case f root of Inl e \<Rightarrow> Inl e | Inr v \<Rightarrow> Inr (Some v))"
  by (simp add: AbstractXmlInfoExtractor_extract_def is_response_ok_iff)

lemma extract_absent_iff:
  "fromstring (encode (response_text self)) = Some root \<Longrightarrow>
   AbstractXmlInfoExtractor_extract encode fromstring f self = Inr None \<longleftrightarrow> suffix ''Fault'' (tag root)"
  by (simp add: extract_parsed split: sum.splits)

lemma extract_raises_ParseError:
  "fromstring (encode (response_text self)) = None \<Longrightarrow>
   AbstractXmlInfoExtractor_extract encode fromstring f self = Inl ParseError"
  by (simp add: AbstractXmlInfoExtractor_extract_def)

subsection \<open>The tree queries\<close>

lemma foldl_prepare_child:
  "foldl (\<lambda>result t. prepare_child t result) es path = concat (map (at_path path) es)"
proof (induction path arbitrary: es)
  case Nil
  show ?case by (induction es) simp_all
next
  case (Cons t ts)
  have "concat (map (at_path ts) (prepare_child t es)) = concat (map (at_path (t # ts)) es)"
    by (induction es) (simp_all add: prepare_child_def)
  moreover have "foldl (\<lambda>result t. prepare_child t result) es (t # ts) =
      concat (map (at_path ts) (prepare_child t es))"
    using Cons.IH [of "prepare_child t es"] by simp
  ultimately show ?case by (simp only:)
qed

lemma findall_at_path: "findall e path = at_path path e"
  by (simp add: findall_def foldl_prepare_child)

lemma subseq_concat_map:
  "(\<And>x. x \<in> set xs \<Longrightarrow> subseq (f x) (g x)) \<Longrightarrow> subseq (concat (map f xs)) (concat (map g xs))"
  by (induction xs) (auto intro: list_emb_append_mono)

lemma subseq_concat_filter:
  "subseq (concat (map f (filter P xs))) (concat (map f xs))"
  by (induction xs) (auto intro: list_emb_append_mono subseq_drop_many)

lemma at_path_document_order: "subseq (at_path p e) (iter_elem e)"
proof (induction p e rule: at_path.induct)
  case (1 e)
  show ?case by (cases e) simp
next
  case (2 t ts e)
  let ?cs = "filter (\<lambda>c. tag c = t) (children e)"
  have "subseq (concat (map (at_path ts) ?cs)) (concat (map iter_elem ?cs))"
    using 2 by (intro subseq_concat_map) simp
  also have "subseq (concat (map iter_elem ?cs)) (concat (map iter_elem (children e)))"
    by (rule subseq_concat_filter)
  finally have "subseq (at_path (t # ts) e) (concat (map iter_elem (children e)))"
    by simp
  then have "subseq (at_path (t # ts) e) (e # concat (map iter_elem (children e)))"
    by (rule list_emb_Cons)
  then show ?case by (cases e) simp
qed

lemma find_elem_child:
  "find_elem e [t] = List.find (\<lambda>c. tag c = t) (children e)"
proof -
  have "(case filter P xs of [] \<Rightarrow> None | x # _ \<Rightarrow> Some x) = List.find P xs" for P and xs :: "Element list"
    by (induction xs) simp_all
  then show ?thesis
    by (simp add: find_elem_def findall_def prepare_child_def)
qed

subsection \<open>The field mappers\<close>

lemma getitem_Some: "d k = Some v \<Longrightarrow> getitem d k = Inr v"
  by (simp add: getitem_def)

lemma getitem_None: "d k = None \<Longrightarrow> getitem d k = Inl (KeyError k)"
  by (simp add: getitem_def)

lemma extract_information_profile:
  "attrib root ''GivenName'' = Some a \<Longrightarrow> attrib root ''FamilyName'' = Some b \<Longrightarrow>
   attrib root ''Email'' = Some c \<Longrightarrow>
   UserInfoExtractor_extract_information root =
     Inr \<lparr>first_name = a, last_name = b, email = c\<rparr>"
  by (simp add: UserInfoExtractor_extract_information_def getitem_Some)

lemma extract_information_profile_missing:
  assumes "k \<in> set profile_keys" and "attrib root k = None"
  shows "\<exists>k' \<in> set profile_keys. attrib root k' = None \<and>
           UserInfoExtractor_extract_information root = Inl (KeyError k')"
proof (cases "attrib root ''GivenName''")
  case None
  then show ?thesis
    by (auto simp: UserInfoExtractor_extract_information_def getitem_def profile_keys_def)
next
  case given: (Some a)
  show ?thesis
  proof (cases "attrib root ''FamilyName''")
    case None
    with given show ?thesis
      by (auto simp: UserInfoExtractor_extract_information_def getitem_def profile_keys_def)
  next
    case family: (Some b)
    from assms given family have "attrib root ''Email'' = None"
      by (auto simp: profile_keys_def)
    with given family show ?thesis
      by (auto simp: UserInfoExtractor_extract_information_def getitem_def profile_keys_def)
  qed
qed

lemma map_to_exam_results_present:
  assumes "\<forall>k \<in> set exam_result_keys. d k \<noteq> None"
  shows "\<exists>r. map_to_exam_results d = Inr r \<and>
           d ''Name'' = Some (title (course r)) \<and>
           d ''CourseCode'' = Some (course_number (course r)) \<and>
           d ''EctsPoints'' = Some (ects_points r) \<and>
           d ''Grade'' = Some (grade r) \<and>
           d ''Period'' = Some (period r) \<and>
           d ''Year'' = Some (year r)"
proof -
  from assms obtain n c p g pe y where
    "d ''Name'' = Some n" "d ''CourseCode'' = Some c" "d ''EctsPoints'' = Some p"
    "d ''Grade'' = Some g" "d ''Period'' = Some pe" "d ''Year'' = Some y"
    by (auto simp: exam_result_keys_def)
  then show ?thesis
    by (simp add: map_to_exam_results_def map_to_course_def getitem_Some)
qed

lemma map_to_exam_results_missing:
  assumes "k \<in> set exam_result_keys" and "d k = None"
  shows "\<exists>k' \<in> set exam_result_keys. d k' = None \<and>
           map_to_exam_results d = Inl (KeyError k')"
proof -
  have "\<exists>k' \<in> set exam_result_keys. d k' = None \<and> map_to_exam_results d = Inl (KeyError k')"
    if "\<exists>k' \<in> set exam_result_keys. d k' = None"
    using that
    by (cases "d ''Name''"; cases "d ''CourseCode''"; cases "d ''EctsPoints''";
        cases "d ''Grade''"; cases "d ''Period''"; cases "d ''Year''")
       (simp_all add: map_to_exam_results_def map_to_course_def getitem_def
          exam_result_keys_def)
  with assms show ?thesis by blast
qed

lemma comprehension_all:
  "\<forall>x \<in> set xs. \<exists>y. f x = Inr y \<and> P x y \<Longrightarrow>
   \<exists>ys. comprehension f xs = Inr ys \<and> list_all2 P xs ys"
proof (induction xs)
  case Nil
  show ?case by simp
next
  case (Cons x xs)
  then obtain y ys where "f x = Inr y" "P x y" "comprehension f xs = Inr ys" "list_all2 P xs ys"
    by auto
  then show ?case by simp
qed

lemma comprehension_raises:
  "x \<in> set xs \<Longrightarrow> f x = Inl e \<Longrightarrow>
   \<exists>x' \<in> set xs. \<exists>e'. f x' = Inl e' \<and> comprehension f xs = Inl e'"
proof (induction xs)
  case Nil
  then show ?case by simp
next
  case (Cons a xs)
  show ?case
  proof (cases "f a")
    case (Inl e')
    then show ?thesis by auto
  next
    case (Inr y)
    with Cons.prems have "x \<in> set xs" by auto
    from Cons.IH [OF this Cons.prems(2)] obtain x' e'
      where "x' \<in> set xs" "f x' = Inl e'" "comprehension f xs = Inl e'"
      by blast
    with Inr show ?thesis by auto
  qed
qed

subsection \<open>The authenticator and the session\<close>

lemma extract_password_parsed:
  "fromstring text = Some root \<Longrightarrow>
   extract_password_from_response_body fromstring text =
     (case List.find (\<lambda>c. tag c = ''LimitedAccess'') (children root) of
        None \<Rightarrow> Inr None
      | Some la \<Rightarrow>
         (case attrib la ''Password'' of
            None \<Rightarrow> Inl (KeyError ''Password'')
          | Some token \<Rightarrow> Inr (Some token)))"
  by (simp add: extract_password_from_response_body_def is_authenticated_xml_def
      find_elem_child getitem_def split: option.splits)

lemma auth_token_answered:
  "requests_post auth_token_url (Authenticator_headers self)
     (authentication_payload username password) = Inr text \<Longrightarrow>
   Authenticator_auth_token requests_post fromstring self username password =
     extract_password_from_response_body fromstring text"
  by (simp add: Authenticator_auth_token_def)

lemma get_auth_token_token_update:
  "get_auth_token requests_post fromstring (self\<lparr>auth_token := x\<rparr>) password =
   get_auth_token requests_post fromstring self password"
  by (simp add: get_auth_token_def)

lemma step_cases:
  "step w op self = self \<or>
   (\<exists>password token. op = Authenticate password \<and>
      get_auth_token (world_post w) (world_fromstring w) self password = Inr token \<and>
      step w op self = self\<lparr>auth_token := token\<rparr>)"
  by (cases op) (auto simp: authenticate_def split: sum.splits)

lemma run_authenticated:
  "\<not> is_authenticated self \<Longrightarrow> is_authenticated (run tr self) \<Longrightarrow>
   \<exists>(w, op) \<in> set tr. \<exists>password token. op = Authenticate password \<and>
      get_auth_token (world_post w) (world_fromstring w) self password = Inr (Some token)"
proof (induction tr arbitrary: self)
  case Nil
  then show ?case by simp
next
  case (Cons a tr)
  obtain w op where a: "a = (w, op)"
    by (cases a)
  from step_cases [of w op self] show ?case
  proof
    assume same: "step w op self = self"
    with Cons.prems a have "is_authenticated (run tr self)"
      by simp
    from Cons.IH [OF Cons.prems(1) this] show ?thesis
      by auto
  next
    assume "\<exists>password token. op = Authenticate password \<and>
      get_auth_token (world_post w) (world_fromstring w) self password = Inr token \<and>
      step w op self = self\<lparr>auth_token := token\<rparr>"
    then obtain password token where op: "op = Authenticate password"
      and token: "get_auth_token (world_post w) (world_fromstring w) self password = Inr token"
      and next_state: "step w op self = self\<lparr>auth_token := token\<rparr>"
      by blast
    show ?thesis
    proof (cases token)
      case (Some t)
      with op token a show ?thesis
        by auto
    next
      case None
      with next_state have unauth: "\<not> is_authenticated (self\<lparr>auth_token := None\<rparr>)"
        by (simp add: is_authenticated_def)
      from Cons.prems(2) a next_state None
      have "is_authenticated (run tr (self\<lparr>auth_token := None\<rparr>))"
        by simp
      from Cons.IH [OF unauth this] show ?thesis
        by (auto simp: get_auth_token_token_update)
    qed
  qed
qed

subsection \<open>The sample responses\<close>

lemmas sample_texts =
  profile_text_def fault_text_def partial_profile_text_def grades_text_def no_grades_text_def
  partial_grades_text_def granted_text_def denied_text_def nested_text_def malformed_text_def

lemma sample_parser_simps:
  "sample_parser profile_text = Some profile_doc"
  "sample_parser fault_text = Some fault_doc"
  "sample_parser partial_profile_text = Some partial_profile_doc"
  "sample_parser grades_text = Some grades_doc"
  "sample_parser no_grades_text = Some no_grades_doc"
  "sample_parser partial_grades_text = Some partial_grades_doc"
  "sample_parser granted_text = Some granted_doc"
  "sample_parser denied_text = Some denied_doc"
  "sample_parser nested_text = Some nested_doc"
  "sample_parser malformed_text = None"
  by (simp_all add: sample_parser_def sample_texts)

lemma sample_result_tags:
  "tag algebra_result = ''ExamResult''"
  "tag physics_result = ''ExamResult''"
  "tag ungraded_result = ''ExamResult''"
  by (simp_all add: algebra_result_def physics_result_def ungraded_result_def)

lemma sample_matches:
  "at_path exam_result_path grades_doc = [algebra_result, physics_result]"
  "at_path exam_result_path no_grades_doc = []"
  "at_path exam_result_path partial_grades_doc = [algebra_result, ungraded_result]"
  by (simp_all add: exam_result_path_def grades_doc_def no_grades_doc_def
      partial_grades_doc_def sample_result_tags)

lemma sample_get_auth_token:
  "get_auth_token (world_post granting) (world_fromstring granting) sample_api ''secret''
     = Inr (Some ''tok123'')"
  "get_auth_token (world_post denying) (world_fromstring denying) s ''wrong'' = Inr None"
  "get_auth_token (world_post granting) (world_fromstring granting) s ''secret''
     = Inr (Some ''tok123'')"
  by (simp_all add: get_auth_token_def granting_def denying_def Authenticator_auth_token_def
      canned_post_def extract_password_parsed sample_parser_simps granted_doc_def denied_doc_def)

section \<open>The claims\<close>

text \<open>
  Claim C1. For every response text the parser accepts, \<^verbatim>\<open>extract\<close> returns
  \<^verbatim>\<open>None\<close> exactly when the tag of the root element ends in \<^verbatim>\<open>Fault\<close>. This holds
  for the profile extractor, for the grades extractor and for every other field mapper
  put into the shared routine: only the root's tag decides, whatever the rest of the
  document holds, and on a fault the result does not depend on the mapper at all (it is
  not called).
\<close>

theorem fault_iff_absent:
  assumes "fromstring (encode (response_text self)) = Some root"
  shows "(UserInfoExtractor_extract encode fromstring self = Inr None
            \<longleftrightarrow> suffix ''Fault'' (tag root)) \<and>
         (UserGradesExtractor_extract encode fromstring self = Inr None
            \<longleftrightarrow> suffix ''Fault'' (tag root)) \<and>
         (\<forall>mapper :: Element \<Rightarrow> error + 'a.
            AbstractXmlInfoExtractor_extract encode fromstring mapper self = Inr None
            \<longleftrightarrow> suffix ''Fault'' (tag root))"
  using assms
  by (simp add: UserInfoExtractor_extract_def UserGradesExtractor_extract_def
      extract_absent_iff)

theorem fault_iff_absent_witness:
  "sample_parser (id (response_text \<lparr>response_text = fault_text\<rparr>)) = Some fault_doc \<and>
   (UserInfoExtractor_extract id sample_parser \<lparr>response_text = fault_text\<rparr> = Inr None
      \<longleftrightarrow> suffix ''Fault'' (tag fault_doc)) \<and>
   (UserGradesExtractor_extract id sample_parser \<lparr>response_text = fault_text\<rparr> = Inr None
      \<longleftrightarrow> suffix ''Fault'' (tag fault_doc)) \<and>
   (\<forall>mapper :: Element \<Rightarrow> error + unit.
      AbstractXmlInfoExtractor_extract id sample_parser mapper \<lparr>response_text = fault_text\<rparr>
        = Inr None
      \<longleftrightarrow> suffix ''Fault'' (tag fault_doc))"
proof -
  have parsed: "sample_parser (id (response_text \<lparr>response_text = fault_text\<rparr>)) = Some fault_doc"
    by (simp add: sample_parser_simps)
  show ?thesis
    using parsed fault_iff_absent [where encode = id and fromstring = sample_parser
        and self = "\<lparr>response_text = fault_text\<rparr>" and root = fault_doc, OF parsed]
    by (rule conjI)
qed

text \<open>
  Claim C2 says that the token starts absent, is set exactly once, and that an
  authenticated session never becomes unauthenticated again. A session constructed with
  a token starts authenticated; and a session that has authenticated is unauthenticated
  again after a second \<^verbatim>\<open>authenticate\<close> call that the server answers without a
  \<^verbatim>\<open>LimitedAccess\<close> element, since the call assigns whatever the extraction returned.
\<close>

theorem session_token_never_reset_counterexample:
  "is_authenticated (CampusNetApi_init ''MyCampusNetApp'' ''sh2870272'' ''s123456'' (Some ''tok000'')) \<and>
   \<not> is_authenticated sample_api \<and>
   is_authenticated (run [(granting, Authenticate ''secret'')] sample_api) \<and>
   \<not> is_authenticated
       (run [(granting, Authenticate ''secret''), (denying, Authenticate ''wrong'')] sample_api)"
  by (simp add: is_authenticated_def CampusNetApi_init_def sample_api_def authenticate_def
      sample_get_auth_token)

text \<open>
  Claim C2, amended. A session constructed without a token starts unauthenticated.
  \<^verbatim>\<open>is_authenticated\<close>, \<^verbatim>\<open>grades\<close> and \<^verbatim>\<open>user_info\<close> leave the session as it is. Every
  \<^verbatim>\<open>authenticate\<close> call that returns assigns the token the result of the token
  extraction, be it a token or \<^verbatim>\<open>None\<close>, and a call that raises leaves the session as
  it is. So over any sequence of calls a session that was unauthenticated and is
  authenticated afterwards has made an \<^verbatim>\<open>authenticate\<close> call whose extraction returned
  a token.
\<close>

theorem session_token_follows_authenticate:
  "auth_token (CampusNetApi_init app token student None) = None \<and>
   step w IsAuthenticated self = self \<and>
   step w Grades self = self \<and>
   step w UserInfo self = self \<and>
   step w (Authenticate password) self =
     (case get_auth_token (world_post w) (world_fromstring w) self password of
        Inl e \<Rightarrow> self
      | Inr result \<Rightarrow> self\<lparr>auth_token := result\<rparr>) \<and>
   (\<not> is_authenticated self \<and> is_authenticated (run tr self) \<longrightarrow>
      (\<exists>(w', op) \<in> set tr. \<exists>password' token'. op = Authenticate password' \<and>
         get_auth_token (world_post w') (world_fromstring w') self password'
           = Inr (Some token')))"
  using run_authenticated [of self tr]
  by (auto simp: CampusNetApi_init_def authenticate_def split: sum.splits)

theorem session_token_follows_authenticate_witness:
  "\<not> is_authenticated sample_api \<and>
   is_authenticated (run [(denying, Grades), (granting, Authenticate ''secret'')] sample_api) \<and>
   (\<exists>(w', op) \<in> set [(denying, Grades), (granting, Authenticate ''secret'')].
      \<exists>password' token'. op = Authenticate password' \<and>
        get_auth_token (world_post w') (world_fromstring w') sample_api password'
          = Inr (Some token'))"
proof -
  have before: "\<not> is_authenticated sample_api"
    by (simp add: is_authenticated_def sample_api_def CampusNetApi_init_def)
  have after: "is_authenticated
      (run [(denying, Grades), (granting, Authenticate ''secret'')] sample_api)"
    by (simp add: is_authenticated_def authenticate_def sample_get_auth_token)
  from session_token_follows_authenticate
    [where self = sample_api and tr = "[(denying, Grades), (granting, Authenticate ''secret'')]"]
    before after
  show ?thesis
    by blast
qed

text \<open>
  Claim C3 says that \<^verbatim>\<open>auth_token\<close> returns the \<^verbatim>\<open>Password\<close> attribute whenever a
  \<^verbatim>\<open>LimitedAccess\<close> element is present in the response. In the response below such an
  element is present, with the password \<^verbatim>\<open>tok123\<close>, one level below a child of the
  root; \<^verbatim>\<open>auth_token\<close> returns \<^verbatim>\<open>None\<close>.
\<close>

theorem auth_token_any_LimitedAccess_counterexample:
  "sample_parser nested_text = Some nested_doc \<and>
   ''LimitedAccess'' \<in> set (map tag (iter_elem nested_doc)) \<and>
   Authenticator_auth_token (canned_post (Inr nested_text)) sample_parser
     sample_authenticator ''s123456'' ''secret'' = Inr None"
  by (simp add: sample_parser_simps Authenticator_auth_token_def canned_post_def
      extract_password_parsed)
    (simp add: nested_doc_def)

text \<open>
  Claim C3, amended. For every response the parser accepts: when the root has a direct
  child tagged \<^verbatim>\<open>LimitedAccess\<close> and the first such child carries the attribute
  \<^verbatim>\<open>Password\<close>, \<^verbatim>\<open>auth_token\<close> returns the value of that attribute; when the root has
  no direct child tagged \<^verbatim>\<open>LimitedAccess\<close> (so also when no such element is present at
  all), \<^verbatim>\<open>auth_token\<close> returns \<^verbatim>\<open>None\<close>, as a normal return and not as an exception.
\<close>

theorem auth_token_from_direct_child:
  assumes "requests_post auth_token_url (Authenticator_headers auth)
             (authentication_payload username password) = Inr body"
    and "fromstring body = Some root"
  shows "(List.find (\<lambda>c. tag c = ''LimitedAccess'') (children root) = Some limited_access \<and>
          attrib limited_access ''Password'' = Some token \<longrightarrow>
            Authenticator_auth_token requests_post fromstring auth username password
              = Inr (Some token)) \<and>
         ((\<forall>c \<in> set (children root). tag c \<noteq> ''LimitedAccess'') \<longrightarrow>
            Authenticator_auth_token requests_post fromstring auth username password
              = Inr None)"
proof -
  have "List.find (\<lambda>c. tag c = ''LimitedAccess'') (children root) = None"
    if "\<forall>c \<in> set (children root). tag c \<noteq> ''LimitedAccess''"
    using that by (simp add: find_None_iff)
  with assms show ?thesis
    by (auto simp: auth_token_answered extract_password_parsed)
qed

theorem auth_token_from_direct_child_witness:
  "(canned_post (Inr granted_text) auth_token_url (Authenticator_headers sample_authenticator)
      (authentication_payload ''s123456'' ''secret'') = Inr granted_text \<and>
    sample_parser granted_text = Some granted_doc \<and>
    List.find (\<lambda>c. tag c = ''LimitedAccess'') (children granted_doc)
      = Some (Element ''LimitedAccess'' [''Password'' \<mapsto> ''tok123''] []) \<and>
    attrib (Element ''LimitedAccess'' [''Password'' \<mapsto> ''tok123''] []) ''Password''
      = Some ''tok123'' \<and>
    Authenticator_auth_token (canned_post (Inr granted_text)) sample_parser
      sample_authenticator ''s123456'' ''secret'' = Inr (Some ''tok123'')) \<and>
   (canned_post (Inr denied_text) auth_token_url (Authenticator_headers sample_authenticator)
      (authentication_payload ''s123456'' ''wrong'') = Inr denied_text \<and>
    sample_parser denied_text = Some denied_doc \<and>
    ''LimitedAccess'' \<notin> set (map tag (children denied_doc)) \<and>
    Authenticator_auth_token (canned_post (Inr denied_text)) sample_parser
      sample_authenticator ''s123456'' ''wrong'' = Inr None)"
proof -
  let ?la = "Element ''LimitedAccess'' [''Password'' \<mapsto> ''tok123''] []"
  have answered: "canned_post (Inr granted_text) auth_token_url
      (Authenticator_headers sample_authenticator)
      (authentication_payload ''s123456'' ''secret'') = Inr granted_text"
    by (simp add: canned_post_def)
  have parsed: "sample_parser granted_text = Some granted_doc"
    by (simp add: sample_parser_simps)
  have child: "List.find (\<lambda>c. tag c = ''LimitedAccess'') (children granted_doc) = Some ?la"
    by (simp add: granted_doc_def)
  have password: "attrib ?la ''Password'' = Some ''tok123''"
    by simp
  have answered': "canned_post (Inr denied_text) auth_token_url
      (Authenticator_headers sample_authenticator)
      (authentication_payload ''s123456'' ''wrong'') = Inr denied_text"
    by (simp add: canned_post_def)
  have parsed': "sample_parser denied_text = Some denied_doc"
    by (simp add: sample_parser_simps)
  have no_child': "''LimitedAccess'' \<notin> set (map tag (children denied_doc))"
    by (simp add: denied_doc_def)
  then have no_child: "\<forall>c \<in> set (children denied_doc). tag c \<noteq> ''LimitedAccess''"
    by (metis image_eqI set_map)
  from auth_token_from_direct_child [where requests_post = "canned_post (Inr granted_text)"
      and fromstring = sample_parser and auth = sample_authenticator
      and username = "''s123456''" and password = "''secret''" and body = granted_text
      and root = granted_doc and limited_access = ?la and token = "''tok123''",
      OF answered parsed] child password
  have granted: "Authenticator_auth_token (canned_post (Inr granted_text)) sample_parser
      sample_authenticator ''s123456'' ''secret'' = Inr (Some ''tok123'')"
    by blast
  from auth_token_from_direct_child [where requests_post = "canned_post (Inr denied_text)"
      and fromstring = sample_parser and auth = sample_authenticator
      and username = "''s123456''" and password = "''wrong''" and body = denied_text
      and root = denied_doc, OF answered' parsed'] no_child
  have denied: "Authenticator_auth_token (canned_post (Inr denied_text)) sample_parser
      sample_authenticator ''s123456'' ''wrong'' = Inr None"
    by blast
  from answered parsed child password granted answered' parsed' no_child' denied
  show ?thesis
    by (intro conjI)
qed

text \<open>
  Claim C4. For a response text the parser accepts, whose root is not a fault and
  carries the attributes \<^verbatim>\<open>GivenName\<close>, \<^verbatim>\<open>FamilyName\<close> and \<^verbatim>\<open>Email\<close>, the profile
  extractor returns the \<^verbatim>\<open>Student\<close> made of exactly these three values.
\<close>

theorem profile_extracted:
  assumes "fromstring (encode (response_text self)) = Some root"
    and "\<not> suffix ''Fault'' (tag root)"
    and "attrib root ''GivenName'' = Some a"
    and "attrib root ''FamilyName'' = Some b"
    and "attrib root ''Email'' = Some c"
  shows "UserInfoExtractor_extract encode fromstring self =
           Inr (Some \<lparr>first_name = a, last_name = b, email = c\<rparr>)"
  using assms
  by (simp add: UserInfoExtractor_extract_def extract_parsed extract_information_profile)

theorem profile_extracted_witness:
  "sample_parser (id (response_text \<lparr>response_text = profile_text\<rparr>)) = Some profile_doc \<and>
   \<not> suffix ''Fault'' (tag profile_doc) \<and>
   attrib profile_doc ''GivenName'' = Some ''A'' \<and>
   attrib profile_doc ''FamilyName'' = Some ''B'' \<and>
   attrib profile_doc ''Email'' = Some ''c@d.com'' \<and>
   UserInfoExtractor_extract id sample_parser \<lparr>response_text = profile_text\<rparr> =
     Inr (Some \<lparr>first_name = ''A'', last_name = ''B'', email = ''c@d.com''\<rparr>)"
proof -
  have parsed: "sample_parser (id (response_text \<lparr>response_text = profile_text\<rparr>)) = Some profile_doc"
    by (simp add: sample_parser_simps)
  have ok: "\<not> suffix ''Fault'' (tag profile_doc)"
    by (simp add: profile_doc_def suffix_to_prefix)
  have given: "attrib profile_doc ''GivenName'' = Some ''A''"
    and family: "attrib profile_doc ''FamilyName'' = Some ''B''"
    and mail: "attrib profile_doc ''Email'' = Some ''c@d.com''"
    by (simp_all add: profile_doc_def)
  from profile_extracted [where encode = id and fromstring = sample_parser,
      OF parsed ok given family mail] parsed ok given family mail
  show ?thesis
    by (intro conjI)
qed

text \<open>
  Claim C5. For a response text the parser accepts, whose root is not a fault, with
  \<open>N \<ge> 1\<close> elements at the path \<^verbatim>\<open>EducationProgramme/ExamResults/ExamResult\<close>, each
  carrying the six attributes the mapper reads: the grades extractor returns a list of
  exactly \<open>N\<close> exam results; the matched elements are in document order; and the
  \<open>i\<close>-th result holds the attributes \<^verbatim>\<open>Name\<close>, \<^verbatim>\<open>CourseCode\<close>, \<^verbatim>\<open>EctsPoints\<close>,
  \<^verbatim>\<open>Grade\<close>, \<^verbatim>\<open>Period\<close>, \<^verbatim>\<open>Year\<close> of the \<open>i\<close>-th matched element, the first two
  wrapped in its course.
\<close>

theorem grades_extracted_in_order:
  assumes "fromstring (encode (response_text self)) = Some root"
    and "\<not> suffix ''Fault'' (tag root)"
    and "matched = at_path exam_result_path root"
    and "1 \<le> length matched"
    and "\<forall>e \<in> set matched. \<forall>k \<in> set exam_result_keys. attrib e k \<noteq> None"
  shows "\<exists>results.
           UserGradesExtractor_extract encode fromstring self = Inr (Some results) \<and>
           length results = length matched \<and>
           subseq matched (iter_elem root) \<and>
           (\<forall>i < length matched.
              attrib (matched ! i) ''Name'' = Some (title (course (results ! i))) \<and>
              attrib (matched ! i) ''CourseCode'' = Some (course_number (course (results ! i))) \<and>
              attrib (matched ! i) ''EctsPoints'' = Some (ects_points (results ! i)) \<and>
              attrib (matched ! i) ''Grade'' = Some (grade (results ! i)) \<and>
              attrib (matched ! i) ''Period'' = Some (period (results ! i)) \<and>
              attrib (matched ! i) ''Year'' = Some (year (results ! i)))"
proof -
  let ?maps = "\<lambda>e r.
      attrib e ''Name'' = Some (title (course r)) \<and>
      attrib e ''CourseCode'' = Some (course_number (course r)) \<and>
      attrib e ''EctsPoints'' = Some (ects_points r) \<and>
      attrib e ''Grade'' = Some (grade r) \<and>
      attrib e ''Period'' = Some (period r) \<and>
      attrib e ''Year'' = Some (year r)"
  have "\<forall>e \<in> set matched. \<exists>r. map_to_exam_results (attrib e) = Inr r \<and> ?maps e r"
    using assms(5) map_to_exam_results_present by blast
  then obtain results
    where results: "comprehension (\<lambda>e. map_to_exam_results (attrib e)) matched = Inr results"
      and all2: "list_all2 ?maps matched results"
    using comprehension_all [of matched "\<lambda>e. map_to_exam_results (attrib e)" ?maps] by blast
  have "UserGradesExtractor_extract encode fromstring self = Inr (Some results)"
    using assms(1,2,3) results
    by (simp add: UserGradesExtractor_extract_def extract_parsed
        UserGradesExtractor_extract_information_def findall_at_path)
  moreover have "length results = length matched"
    using all2 by (simp add: list_all2_lengthD)
  moreover have "subseq matched (iter_elem root)"
    using assms(3) by (simp add: at_path_document_order)
  moreover have "\<forall>i < length matched. ?maps (matched ! i) (results ! i)"
    using all2 by (simp add: list_all2_conv_all_nth)
  ultimately show ?thesis
    by blast
qed

theorem grades_extracted_in_order_witness:
  "sample_parser (id (response_text \<lparr>response_text = grades_text\<rparr>)) = Some grades_doc \<and>
   \<not> suffix ''Fault'' (tag grades_doc) \<and>
   [algebra_result, physics_result] = at_path exam_result_path grades_doc \<and>
   1 \<le> length [algebra_result, physics_result] \<and>
   list_all (\<lambda>e. list_all (\<lambda>k. attrib e k \<noteq> None) exam_result_keys)
     [algebra_result, physics_result] \<and>
   (\<exists>results.
      UserGradesExtractor_extract id sample_parser \<lparr>response_text = grades_text\<rparr>
        = Inr (Some results) \<and>
      length results = 2 \<and>
      attrib algebra_result ''Name'' = Some (title (course (results ! 0))) \<and>
      attrib physics_result ''Name'' = Some (title (course (results ! 1))))"
proof -
  have parsed: "sample_parser (id (response_text \<lparr>response_text = grades_text\<rparr>)) = Some grades_doc"
    by (simp add: sample_parser_simps)
  have ok: "\<not> suffix ''Fault'' (tag grades_doc)"
    by (simp add: grades_doc_def suffix_to_prefix)
  have matched: "[algebra_result, physics_result] = at_path exam_result_path grades_doc"
    by (simp add: sample_matches)
  have some: "1 \<le> length [algebra_result, physics_result]"
    by simp
  have complete': "list_all (\<lambda>e. list_all (\<lambda>k. attrib e k \<noteq> None) exam_result_keys)
      [algebra_result, physics_result]"
    by (simp add: exam_result_keys_def algebra_result_def physics_result_def)
  then have complete: "\<forall>e \<in> set [algebra_result, physics_result].
      \<forall>k \<in> set exam_result_keys. attrib e k \<noteq> None"
    by (simp add: list_all_iff)
  from grades_extracted_in_order [where encode = id and fromstring = sample_parser,
      OF parsed ok matched some complete]
  obtain results where
    "UserGradesExtractor_extract id sample_parser \<lparr>response_text = grades_text\<rparr>
       = Inr (Some results)"
    "length results = length [algebra_result, physics_result]"
    "\<forall>i < length [algebra_result, physics_result].
       attrib ([algebra_result, physics_result] ! i) ''Name'' = Some (title (course (results ! i)))"
    by blast
  note r = this
  from r(3) [rule_format, of 0] have "attrib ([algebra_result, physics_result] ! 0) ''Name''
      = Some (title (course (results ! 0)))"
    by simp
  moreover from r(3) [rule_format, of 1]
  have "attrib ([algebra_result, physics_result] ! 1) ''Name''
      = Some (title (course (results ! 1)))"
    by simp
  ultimately have "UserGradesExtractor_extract id sample_parser \<lparr>response_text = grades_text\<rparr>
        = Inr (Some results) \<and>
      length results = 2 \<and>
      attrib algebra_result ''Name'' = Some (title (course (results ! 0))) \<and>
      attrib physics_result ''Name'' = Some (title (course (results ! 1)))"
    using r(1,2) by simp
  with parsed ok matched some complete' show ?thesis
    by blast
qed

text \<open>
  Claim C6. For a response text the parser accepts, whose root is not a fault and which
  has no element at the path \<^verbatim>\<open>EducationProgramme/ExamResults/ExamResult\<close>, the grades
  extractor returns the empty list: neither \<^verbatim>\<open>None\<close> nor an exception.
\<close>

theorem no_grades_empty_sequence:
  assumes "fromstring (encode (response_text self)) = Some root"
    and "\<not> suffix ''Fault'' (tag root)"
    and "at_path exam_result_path root = []"
  shows "UserGradesExtractor_extract encode fromstring self = Inr (Some [])"
  using assms
  by (simp add: UserGradesExtractor_extract_def extract_parsed
      UserGradesExtractor_extract_information_def findall_at_path)

theorem no_grades_empty_sequence_witness:
  "sample_parser (id (response_text \<lparr>response_text = no_grades_text\<rparr>)) = Some no_grades_doc \<and>
   \<not> suffix ''Fault'' (tag no_grades_doc) \<and>
   at_path exam_result_path no_grades_doc = [] \<and>
   UserGradesExtractor_extract id sample_parser \<lparr>response_text = no_grades_text\<rparr>
     = Inr (Some [])"
proof -
  have parsed: "sample_parser (id (response_text \<lparr>response_text = no_grades_text\<rparr>))
      = Some no_grades_doc"
    by (simp add: sample_parser_simps)
  have ok: "\<not> suffix ''Fault'' (tag no_grades_doc)"
    by (simp add: no_grades_doc_def suffix_to_prefix)
  have none: "at_path exam_result_path no_grades_doc = []"
    by (simp add: sample_matches)
  from no_grades_empty_sequence [where encode = id and fromstring = sample_parser,
      OF parsed ok none] parsed ok none
  show ?thesis
    by (intro conjI)
qed

text \<open>
  Claim C7. When the parser rejects the text (it raises \<^verbatim>\<open>ParseError\<close>, as it does on
  every text that is not well-formed XML), both extractors raise that \<^verbatim>\<open>ParseError\<close>,
  and so do the authenticator's token extraction and \<^verbatim>\<open>auth_token\<close> on a response with
  such a body. None of them returns \<^verbatim>\<open>None\<close>.
\<close>

theorem malformed_raises_ParseError:
  "(fromstring (encode (response_text self)) = None \<longrightarrow>
      UserInfoExtractor_extract encode fromstring self = Inl ParseError \<and>
      UserGradesExtractor_extract encode fromstring self = Inl ParseError) \<and>
   (fromstring body = None \<longrightarrow>
      extract_password_from_response_body fromstring body = Inl ParseError \<and>
      (requests_post auth_token_url (Authenticator_headers auth)
         (authentication_payload username password) = Inr body \<longrightarrow>
       Authenticator_auth_token requests_post fromstring auth username password
         = Inl ParseError))"
  by (simp add: UserInfoExtractor_extract_def UserGradesExtractor_extract_def
      extract_raises_ParseError auth_token_answered extract_password_from_response_body_def)

theorem malformed_raises_ParseError_witness:
  "sample_parser (id (response_text \<lparr>response_text = malformed_text\<rparr>)) = None \<and>
   UserInfoExtractor_extract id sample_parser \<lparr>response_text = malformed_text\<rparr>
     = Inl ParseError \<and>
   UserGradesExtractor_extract id sample_parser \<lparr>response_text = malformed_text\<rparr>
     = Inl ParseError \<and>
   sample_parser malformed_text = None \<and>
   extract_password_from_response_body sample_parser malformed_text = Inl ParseError \<and>
   canned_post (Inr malformed_text) auth_token_url (Authenticator_headers sample_authenticator)
     (authentication_payload ''s123456'' ''secret'') = Inr malformed_text \<and>
   Authenticator_auth_token (canned_post (Inr malformed_text)) sample_parser
     sample_authenticator ''s123456'' ''secret'' = Inl ParseError"
proof -
  have rejected: "sample_parser (id (response_text \<lparr>response_text = malformed_text\<rparr>)) = None"
    by (simp add: sample_parser_simps)
  have rejected': "sample_parser malformed_text = None"
    by (simp add: sample_parser_simps)
  have answered: "canned_post (Inr malformed_text) auth_token_url
      (Authenticator_headers sample_authenticator)
      (authentication_payload ''s123456'' ''secret'') = Inr malformed_text"
    by (simp add: canned_post_def)
  from malformed_raises_ParseError [where encode = id and fromstring = sample_parser
      and self = "\<lparr>response_text = malformed_text\<rparr>" and body = malformed_text
      and requests_post = "canned_post (Inr malformed_text)" and auth = sample_authenticator
      and username = "''s123456''" and password = "''secret''"]
    rejected rejected' answered
  show ?thesis
    by blast
qed

text \<open>
  Claim C8. For a response text the parser accepts and whose root is not a fault: if the
  root lacks one of \<^verbatim>\<open>GivenName\<close>, \<^verbatim>\<open>FamilyName\<close>, \<^verbatim>\<open>Email\<close>, the profile extractor
  raises \<^verbatim>\<open>KeyError\<close> for an attribute the root lacks; if an element matched by the
  grades path lacks one of the six attributes, the grades extractor raises \<^verbatim>\<open>KeyError\<close>
  for an attribute a matched element lacks. Neither returns \<^verbatim>\<open>None\<close> or a partial
  record.
\<close>

theorem missing_attribute_raises_KeyError:
  assumes "fromstring (encode (response_text self)) = Some root"
    and "\<not> suffix ''Fault'' (tag root)"
  shows "((\<exists>k \<in> set profile_keys. attrib root k = None) \<longrightarrow>
            (\<exists>k \<in> set profile_keys. attrib root k = None \<and>
               UserInfoExtractor_extract encode fromstring self = Inl (KeyError k))) \<and>
         ((\<exists>e \<in> set (at_path exam_result_path root).
             \<exists>k \<in> set exam_result_keys. attrib e k = None) \<longrightarrow>
            (\<exists>e \<in> set (at_path exam_result_path root).
               \<exists>k \<in> set exam_result_keys. attrib e k = None \<and>
               UserGradesExtractor_extract encode fromstring self = Inl (KeyError k)))"
proof (intro conjI impI)
  assume "\<exists>k \<in> set profile_keys. attrib root k = None"
  then obtain k' where "k' \<in> set profile_keys" "attrib root k' = None"
    "UserInfoExtractor_extract_information root = Inl (KeyError k')"
    using extract_information_profile_missing by blast
  with assms show "\<exists>k \<in> set profile_keys. attrib root k = None \<and>
      UserInfoExtractor_extract encode fromstring self = Inl (KeyError k)"
    by (auto simp: UserInfoExtractor_extract_def extract_parsed)
next
  let ?f = "\<lambda>e. map_to_exam_results (attrib e)"
  assume "\<exists>e \<in> set (at_path exam_result_path root).
            \<exists>k \<in> set exam_result_keys. attrib e k = None"
  then obtain e err where "e \<in> set (at_path exam_result_path root)" "?f e = Inl err"
    using map_to_exam_results_missing by blast
  from comprehension_raises [of e _ ?f, OF this]
  obtain e' err' where e': "e' \<in> set (at_path exam_result_path root)"
    and raised: "?f e' = Inl err'"
    and all: "comprehension ?f (at_path exam_result_path root) = Inl err'"
    by blast
  have "\<exists>k \<in> set exam_result_keys. attrib e' k = None \<and> err' = KeyError k"
  proof (cases "\<forall>k \<in> set exam_result_keys. attrib e' k \<noteq> None")
    case True
    with map_to_exam_results_present [of "attrib e'"] raised show ?thesis
      by auto
  next
    case False
    then obtain k where "k \<in> set exam_result_keys" "attrib e' k = None"
      by blast
    with map_to_exam_results_missing [of k "attrib e'"] raised show ?thesis
      by auto
  qed
  with assms e' all
  show "\<exists>e \<in> set (at_path exam_result_path root).
          \<exists>k \<in> set exam_result_keys. attrib e k = None \<and>
          UserGradesExtractor_extract encode fromstring self = Inl (KeyError k)"
    by (auto simp: UserGradesExtractor_extract_def extract_parsed
        UserGradesExtractor_extract_information_def findall_at_path)
qed

theorem missing_attribute_raises_KeyError_witness:
  "(sample_parser (id (response_text \<lparr>response_text = partial_profile_text\<rparr>))
      = Some partial_profile_doc \<and>
    \<not> suffix ''Fault'' (tag partial_profile_doc) \<and>
    (\<exists>k \<in> set profile_keys. attrib partial_profile_doc k = None) \<and>
    (\<exists>k \<in> set profile_keys. attrib partial_profile_doc k = None \<and>
       UserInfoExtractor_extract id sample_parser \<lparr>response_text = partial_profile_text\<rparr>
         = Inl (KeyError k))) \<and>
   (sample_parser (id (response_text \<lparr>response_text = partial_grades_text\<rparr>))
      = Some partial_grades_doc \<and>
    \<not> suffix ''Fault'' (tag partial_grades_doc) \<and>
    (\<exists>e \<in> set (at_path exam_result_path partial_grades_doc).
       \<exists>k \<in> set exam_result_keys. attrib e k = None) \<and>
    (\<exists>e \<in> set (at_path exam_result_path partial_grades_doc).
       \<exists>k \<in> set exam_result_keys. attrib e k = None \<and>
       UserGradesExtractor_extract id sample_parser \<lparr>response_text = partial_grades_text\<rparr>
         = Inl (KeyError k)))"
proof -
  have parsed: "sample_parser (id (response_text \<lparr>response_text = partial_profile_text\<rparr>))
      = Some partial_profile_doc"
    by (simp add: sample_parser_simps)
  have ok: "\<not> suffix ''Fault'' (tag partial_profile_doc)"
    by (simp add: partial_profile_doc_def suffix_to_prefix)
  have missing: "\<exists>k \<in> set profile_keys. attrib partial_profile_doc k = None"
    by (simp add: profile_keys_def partial_profile_doc_def)
  have parsed': "sample_parser (id (response_text \<lparr>response_text = partial_grades_text\<rparr>))
      = Some partial_grades_doc"
    by (simp add: sample_parser_simps)
  have ok': "\<not> suffix ''Fault'' (tag partial_grades_doc)"
    by (simp add: partial_grades_doc_def suffix_to_prefix)
  have missing': "\<exists>e \<in> set (at_path exam_result_path partial_grades_doc).
       \<exists>k \<in> set exam_result_keys. attrib e k = None"
    by (simp add: sample_matches exam_result_keys_def ungraded_result_def)
  from missing_attribute_raises_KeyError [where encode = id and fromstring = sample_parser,
      OF parsed ok] missing
  have profile: "\<exists>k \<in> set profile_keys. attrib partial_profile_doc k = None \<and>
       UserInfoExtractor_extract id sample_parser \<lparr>response_text = partial_profile_text\<rparr>
         = Inl (KeyError k)"
    by blast
  from missing_attribute_raises_KeyError [where encode = id and fromstring = sample_parser,
      OF parsed' ok'] missing'
  have grades: "\<exists>e \<in> set (at_path exam_result_path partial_grades_doc).
       \<exists>k \<in> set exam_result_keys. attrib e k = None \<and>
       UserGradesExtractor_extract id sample_parser \<lparr>response_text = partial_grades_text\<rparr>
         = Inl (KeyError k)"
    by blast
  from parsed ok missing profile parsed' ok' missing' grades show ?thesis
    by (intro conjI)
qed

text \<open>
  Claim C10. The authenticator's success check holds exactly when a direct child of the
  root is tagged \<^verbatim>\<open>LimitedAccess\<close>. Hence for a response the parser accepts, in which
  no direct child of the root is tagged \<^verbatim>\<open>LimitedAccess\<close> while such an element occurs
  at nesting depth two or more, \<^verbatim>\<open>auth_token\<close> returns \<^verbatim>\<open>None\<close>.
\<close>

theorem success_check_direct_children_only:
  assumes "fromstring body = Some root"
  shows "(is_authenticated_xml root \<longleftrightarrow> (\<exists>c \<in> set (children root). tag c = ''LimitedAccess'')) \<and>
         ((\<forall>c \<in> set (children root). tag c \<noteq> ''LimitedAccess'') \<and>
          (\<exists>c \<in> set (children root). \<exists>g \<in> set (children c).
             ''LimitedAccess'' \<in> set (map tag (iter_elem g))) \<and>
          requests_post auth_token_url (Authenticator_headers auth)
            (authentication_payload username password) = Inr body \<longrightarrow>
          Authenticator_auth_token requests_post fromstring auth username password = Inr None)"
proof -
  have "is_authenticated_xml root \<longleftrightarrow> (\<exists>c \<in> set (children root). tag c = ''LimitedAccess'')"
    by (auto simp: is_authenticated_xml_def find_elem_child find_None_iff)
  moreover have "Authenticator_auth_token requests_post fromstring auth username password = Inr None"
    if "\<forall>c \<in> set (children root). tag c \<noteq> ''LimitedAccess''"
      and "requests_post auth_token_url (Authenticator_headers auth)
            (authentication_payload username password) = Inr body"
  proof -
    from that(1) have "List.find (\<lambda>c. tag c = ''LimitedAccess'') (children root) = None"
      by (simp add: find_None_iff)
    with assms that(2) show ?thesis
      by (simp add: auth_token_answered extract_password_parsed)
  qed
  ultimately show ?thesis
    by blast
qed

theorem success_check_direct_children_only_witness:
  "sample_parser nested_text = Some nested_doc \<and>
   ''LimitedAccess'' \<notin> set (map tag (children nested_doc)) \<and>
   (\<exists>c \<in> set (children nested_doc). \<exists>g \<in> set (children c).
      ''LimitedAccess'' \<in> set (map tag (iter_elem g))) \<and>
   canned_post (Inr nested_text) auth_token_url (Authenticator_headers sample_authenticator)
     (authentication_payload ''s123456'' ''secret'') = Inr nested_text \<and>
   \<not> is_authenticated_xml nested_doc \<and>
   Authenticator_auth_token (canned_post (Inr nested_text)) sample_parser
     sample_authenticator ''s123456'' ''secret'' = Inr None"
proof -
  have parsed: "sample_parser nested_text = Some nested_doc"
    by (simp add: sample_parser_simps)
  have no_child': "''LimitedAccess'' \<notin> set (map tag (children nested_doc))"
    by (simp add: nested_doc_def)
  then have no_child: "\<forall>c \<in> set (children nested_doc). tag c \<noteq> ''LimitedAccess''"
    by (metis image_eqI set_map)
  have nested: "\<exists>c \<in> set (children nested_doc). \<exists>g \<in> set (children c).
      ''LimitedAccess'' \<in> set (map tag (iter_elem g))"
    by (simp add: nested_doc_def)
  have answered: "canned_post (Inr nested_text) auth_token_url
      (Authenticator_headers sample_authenticator)
      (authentication_payload ''s123456'' ''secret'') = Inr nested_text"
    by (simp add: canned_post_def)
  from success_check_direct_children_only [where fromstring = sample_parser
      and body = nested_text and root = nested_doc
      and requests_post = "canned_post (Inr nested_text)" and auth = sample_authenticator
      and username = "''s123456''" and password = "''secret''", OF parsed]
    no_child nested answered
  have "\<not> is_authenticated_xml nested_doc \<and>
    Authenticator_auth_token (canned_post (Inr nested_text)) sample_parser
      sample_authenticator ''s123456'' ''secret'' = Inr None"
    by blast
  with parsed no_child' nested answered show ?thesis
    by (intro conjI) blast+
qed

end
